theory Spec2Isabelle
  imports Main
begin

section \<open>Entity model (app/models.py)\<close>

datatype IssueStatus = OPEN | IN_PROGRESS | RESOLVED | CLOSED

datatype IssuePriority = LOW | MEDIUM | HIGH | CRITICAL

text \<open>The string value of each enumeration member, as the classes declare them.\<close>

fun status_value :: "IssueStatus \<Rightarrow> string" where
  "status_value OPEN = ''open''"
| "status_value IN_PROGRESS = ''in_progress''"
| "status_value RESOLVED = ''resolved''"
| "status_value CLOSED = ''closed''"

fun priority_value :: "IssuePriority \<Rightarrow> string" where
  "priority_value LOW = ''low''"
| "priority_value MEDIUM = ''medium''"
| "priority_value HIGH = ''high''"
| "priority_value CRITICAL = ''critical''"

text \<open>
  A timestamp is the reading of the database clock (\<open>func.now()\<close>); every operation
  that may write takes the reading of its own statement as the argument \<open>now\<close>.
\<close>

type_synonym datetime = nat

text \<open>
  A row of the table \<open>issues\<close>. The column \<open>id\<close> is written \<open>id'\<close> (HOL has a constant
  \<open>id\<close>). The columns declared \<open>nullable=True\<close> hold an option; the others cannot hold
  NULL.
\<close>

record Issue =
  id' :: int
  title :: string
  description :: "string option"
  status :: IssueStatus
  priority :: IssuePriority
  reporter :: string
  assignee :: "string option"
  created_at :: datetime
  updated_at :: datetime

section \<open>Outcomes\<close>

text \<open>
  \<open>NotFound\<close> is the \<open>HTTPException\<close> with status 404 the handlers raise, with the id
  its detail names. \<open>ValidationError\<close> is the rejection of a request at the boundary
  (\<open>Query(..., ge=, le=)\<close>, the request schemas). \<open>StoreFault\<close> is an exception of the
  database at \<open>db.commit()\<close>: the transaction is rolled back. \<open>OverflowError\<close> is the
  exception of the SQLite driver when a statement binds a Python \<open>int\<close> outside the
  signed 64-bit range; no handler catches it, and nothing has been written when it is
  raised.
\<close>

datatype error = ValidationError | NotFound int | StoreFault | OverflowError

section \<open>The table and the session (app/database.py)\<close>

text \<open>
  The table is the list of its rows in rowid order. \<open>DATABASE_URL\<close> names SQLite, and the
  model class sets no \<open>sqlite_autoincrement\<close> table option, so the column \<open>id\<close> is a plain
  \<open>INTEGER PRIMARY KEY\<close>: an alias of the rowid, which SQLite assigns on INSERT as one more
  than the largest rowid in the table, and 1 in an empty table. (At the largest 64-bit
  rowid SQLite picks an unused one at random; ids are unbounded here.)
\<close>

type_synonym table = "Issue list"

definition next_rowid :: "table \<Rightarrow> int" where
  "next_rowid db = (case db of [] \<Rightarrow> 1 | i # rest \<Rightarrow> fold max (map id' rest) (id' i) + 1)"

text \<open>The integers SQLite can bind as a statement parameter: the signed 64-bit range.\<close>

definition sqlite_int :: "int \<Rightarrow> bool" where
  "sqlite_int n = (- (2 ^ 63) \<le> n \<and> n < 2 ^ 63)"

text \<open>
  \<open>db.query(Issue).filter(Issue.id == issue_id).first()\<close>: \<open>issue_id\<close> is a Python
  \<open>int\<close> of any size and is bound as a parameter of the SELECT.
\<close>

definition first_by_id :: "int \<Rightarrow> table \<Rightarrow> error + Issue option" where
  "first_by_id issue_id db =
     (if sqlite_int issue_id then Inr (find (\<lambda>i. id' i = issue_id) db)
      else Inl OverflowError)"

text \<open>
  The attributes of a loaded \<open>Issue\<close> object inside the session. \<open>setattr\<close> can put
  \<open>None\<close> on any of them; the NOT NULL constraints are checked by the database only when
  the UPDATE runs.
\<close>

record attributes =
  a_title :: "string option"
  a_description :: "string option"
  a_status :: "IssueStatus option"
  a_priority :: "IssuePriority option"
  a_reporter :: "string option"
  a_assignee :: "string option"

definition loaded :: "Issue \<Rightarrow> attributes" where
  "loaded i = \<lparr>a_title = Some (title i), a_description = description i,
     a_status = Some (status i), a_priority = Some (priority i),
     a_reporter = Some (reporter i), a_assignee = assignee i\<rparr>"

text \<open>
  \<open>db.commit(); db.refresh(db_issue)\<close> for an object loaded from the row \<open>old\<close> whose
  attributes are now \<open>a\<close>. The unit of work of SQLAlchemy compares each attribute that
  was set with the value it was loaded with and puts only the ones that differ into the
  SET clause; when none differs no UPDATE is emitted, so \<open>onupdate=func.now()\<close> of
  \<open>updated_at\<close> does not run either. When an UPDATE is emitted, \<open>updated_at\<close> is not in
  the SET clause, so its \<open>onupdate\<close> sets it to the clock reading; \<open>created_at\<close> and
  \<open>id\<close> are never assigned. NULL in a NOT NULL column makes the UPDATE fail.
\<close>

definition commit_update ::
  "datetime \<Rightarrow> Issue \<Rightarrow> attributes \<Rightarrow> table \<Rightarrow> (error + Issue) \<times> table" where
  "commit_update now old a db =
     (if a = loaded old then (Inr old, db)
      else
        (case (a_title a, a_status a, a_priority a, a_reporter a) of
           (Some t, Some s, Some p, Some r) \<Rightarrow>
             (let new = old\<lparr>title := t, description := a_description a, status := s,
                             priority := p, reporter := r, assignee := a_assignee a,
                             updated_at := now\<rparr>
              in (Inr new, map (\<lambda>i. if id' i = id' old then new else i) db))
         | _ \<Rightarrow> (Inl StoreFault, db)))"

section \<open>Request payloads\<close>

text \<open>
  Modelled from the spec: \<open>app/schemas.py\<close> (the classes \<open>IssueCreate\<close>, \<open>IssueUpdate\<close>,
  \<open>IssueListResponse\<close>, \<open>MessageResponse\<close>) is not among the source files. A validated
  \<open>IssueCreate\<close> has "all fields except id/timestamps; title and reporter required;
  status/priority optional with the Entity Model defaults applied if absent".
\<close>

record IssueCreate =
  c_title :: string
  c_description :: "string option"
  c_status :: "IssueStatus option"
  c_priority :: "IssuePriority option"
  c_reporter :: string
  c_assignee :: "string option"

text \<open>
  A dictionary over the six field names, as \<open>model_dump\<close> returns it: each key is absent or
  present with a value, and a present value may be \<open>None\<close>.
\<close>

datatype 'a entry = Absent | Present 'a

record update_data =
  d_title :: "string option entry"
  d_description :: "string option entry"
  d_status :: "IssueStatus option entry"
  d_priority :: "IssuePriority option entry"
  d_reporter :: "string option entry"
  d_assignee :: "string option entry"

text \<open>
  Modelled from the spec: an \<open>IssueUpdate\<close> has "every field optional", and "a field
  explicitly set to its empty/null value is distinguished from a field omitted entirely".
  It is given by the fields that were set and their values, which is the dictionary
  \<open>issue_update.model_dump(exclude_unset=True)\<close>.
\<close>

type_synonym IssueUpdate = update_data

definition model_dump_exclude_unset :: "IssueUpdate \<Rightarrow> update_data" where
  "model_dump_exclude_unset issue_update = issue_update"

text \<open>\<open>issue_update.model_dump()\<close> of an \<open>IssueCreate\<close>: all six keys are present.\<close>

definition model_dump :: "IssueCreate \<Rightarrow> update_data" where
  "model_dump issue = \<lparr>d_title = Present (Some (c_title issue)),
     d_description = Present (c_description issue),
     d_status = Present (c_status issue),
     d_priority = Present (c_priority issue),
     d_reporter = Present (Some (c_reporter issue)),
     d_assignee = Present (c_assignee issue)\<rparr>"

text \<open>
  \<open>for field, value in update_data.items(): setattr(db_issue, field, value)\<close>: one
  assignment for each key that is present.
\<close>

fun setattr :: "'a entry \<Rightarrow> 'a \<Rightarrow> 'a" where
  "setattr Absent current = current"
| "setattr (Present v) current = v"

definition setattr_items :: "update_data \<Rightarrow> attributes \<Rightarrow> attributes" where
  "setattr_items d a = \<lparr>a_title = setattr (d_title d) (a_title a),
     a_description = setattr (d_description d) (a_description a),
     a_status = setattr (d_status d) (a_status a),
     a_priority = setattr (d_priority d) (a_priority a),
     a_reporter = setattr (d_reporter d) (a_reporter a),
     a_assignee = setattr (d_assignee d) (a_assignee a)\<rparr>"

record IssueListResponse =
  total :: nat
  count :: nat
  issues :: "Issue list"

datatype MessageResponse = Deleted_successfully int

section \<open>The handlers (app/routes/issues.py)\<close>

text \<open>
  \<open>create_issue\<close>: the INSERT leaves out \<open>id\<close>, \<open>created_at\<close> and \<open>updated_at\<close>, so the
  database assigns the rowid and evaluates both \<open>server_default=func.now()\<close> in the one
  statement. A \<open>status\<close> or \<open>priority\<close> of \<open>None\<close> is left out of the INSERT as well, and
  the column's \<open>default=\<close> (\<open>IssueStatus.OPEN\<close>, \<open>IssuePriority.MEDIUM\<close>) is used.
\<close>

definition create_issue :: "datetime \<Rightarrow> IssueCreate \<Rightarrow> table \<Rightarrow> Issue \<times> table" where
  "create_issue now issue db =
     (let db_issue = \<lparr>id' = next_rowid db,
                       title = c_title issue,
                       description = c_description issue,
                       status = (case c_status issue of None \<Rightarrow> OPEN | Some s \<Rightarrow> s),
                       priority = (case c_priority issue of None \<Rightarrow> MEDIUM | Some p \<Rightarrow> p),
                       reporter = c_reporter issue,
                       assignee = c_assignee issue,
                       created_at = now,
                       updated_at = now\<rparr>
      in (db_issue, db @ [db_issue]))"

text \<open>
  \<open>list_issues\<close>. \<open>skip\<close> and \<open>limit\<close> are checked by \<open>Query(0, ge=0)\<close> and
  \<open>Query(100, ge=1, le=100)\<close> before the body runs. \<open>if status:\<close> and \<open>if priority:\<close> hold
  for every member (each is a non-empty \<open>str\<close>); \<open>if assignee:\<close> holds for a string that
  is not empty. \<open>Issue.assignee == assignee\<close> is not true of a row whose assignee is NULL.
  \<open>skip\<close> has no upper bound at the boundary and is bound as the OFFSET parameter after
  \<open>query.count()\<close> has run.
  The parameters \<open>status\<close>, \<open>priority\<close>, \<open>assignee\<close> and the locals \<open>total\<close>, \<open>issues\<close>
  carry a prime: the plain names are the record fields.
\<close>

definition truthy :: "string option \<Rightarrow> bool" where
  "truthy s = (case s of None \<Rightarrow> False | Some v \<Rightarrow> v \<noteq> [])"

definition list_query ::
  "IssueStatus option \<Rightarrow> IssuePriority option \<Rightarrow> string option \<Rightarrow> table \<Rightarrow> Issue list" where
  "list_query status' priority' assignee' db =
     (let query = db;
          query = (case status' of None \<Rightarrow> query
                   | Some s \<Rightarrow> filter (\<lambda>i. status i = s) query);
          query = (case priority' of None \<Rightarrow> query
                   | Some p \<Rightarrow> filter (\<lambda>i. priority i = p) query);
          query = (if truthy assignee'
                   then filter (\<lambda>i. assignee i = assignee') query else query)
      in query)"

definition list_issues ::
  "IssueStatus option \<Rightarrow> IssuePriority option \<Rightarrow> string option \<Rightarrow> int \<Rightarrow> int \<Rightarrow> table
     \<Rightarrow> error + IssueListResponse" where
  "list_issues status' priority' assignee' skip limit db =
     (if skip < 0 \<or> limit < 1 \<or> 100 < limit then Inl ValidationError
      else
        (let query = list_query status' priority' assignee' db;
             total' = length query
         in if sqlite_int skip
            then (let issues' = take (nat limit) (drop (nat skip) query)
                  in Inr \<lparr>total = total', count = length issues', issues = issues'\<rparr>)
            else Inl OverflowError))"

definition get_issue :: "int \<Rightarrow> table \<Rightarrow> error + Issue" where
  "get_issue issue_id db =
     (case first_by_id issue_id db of
        Inl e \<Rightarrow> Inl e
      | Inr None \<Rightarrow> Inl (NotFound issue_id)
      | Inr (Some issue) \<Rightarrow> Inr issue)"

definition update_issue ::
  "datetime \<Rightarrow> int \<Rightarrow> IssueCreate \<Rightarrow> table \<Rightarrow> (error + Issue) \<times> table" where
  "update_issue now issue_id issue_update db =
     (case first_by_id issue_id db of
        Inl e \<Rightarrow> (Inl e, db)
      | Inr None \<Rightarrow> (Inl (NotFound issue_id), db)
      | Inr (Some db_issue) \<Rightarrow>
          commit_update now db_issue
            (setattr_items (model_dump issue_update) (loaded db_issue)) db)"

definition partial_update_issue ::
  "datetime \<Rightarrow> int \<Rightarrow> IssueUpdate \<Rightarrow> table \<Rightarrow> (error + Issue) \<times> table" where
  "partial_update_issue now issue_id issue_update db =
     (case first_by_id issue_id db of
        Inl e \<Rightarrow> (Inl e, db)
      | Inr None \<Rightarrow> (Inl (NotFound issue_id), db)
      | Inr (Some db_issue) \<Rightarrow>
          (let update_data = model_dump_exclude_unset issue_update
           in commit_update now db_issue (setattr_items update_data (loaded db_issue)) db))"

definition delete_issue :: "int \<Rightarrow> table \<Rightarrow> (error + MessageResponse) \<times> table" where
  "delete_issue issue_id db =
     (case first_by_id issue_id db of
        Inl e \<Rightarrow> (Inl e, db)
      | Inr None \<Rightarrow> (Inl (NotFound issue_id), db)
      | Inr (Some db_issue) \<Rightarrow>
          (Inr (Deleted_successfully issue_id), filter (\<lambda>i. id' i \<noteq> issue_id) db))"

section \<open>Validation of the create body\<close>

text \<open>
  The JSON body of \<open>POST /issues/\<close> before validation: each key is absent (or null) or
  carries a string.
\<close>

record create_body =
  b_title :: "string option"
  b_description :: "string option"
  b_status :: "string option"
  b_priority :: "string option"
  b_reporter :: "string option"
  b_assignee :: "string option"

text \<open>Lookup of an enumeration member by its value, as \<open>IssueStatus(value)\<close> does.\<close>

definition parse_status :: "string \<Rightarrow> IssueStatus option" where
  "parse_status s = find (\<lambda>m. status_value m = s) [OPEN, IN_PROGRESS, RESOLVED, CLOSED]"

definition parse_priority :: "string \<Rightarrow> IssuePriority option" where
  "parse_priority s = find (\<lambda>m. priority_value m = s) [LOW, MEDIUM, HIGH, CRITICAL]"

text \<open>
  Modelled from the spec: the validation of \<open>IssueCreate\<close> in \<open>app/schemas.py\<close> is not among
  the source files. The Validation Layer "rejects a payload with title or reporter missing
  or exceeding length limits, or with a status/priority value outside the enumeration",
  "Create with title empty or reporter missing fails validation", and the limits are those
  of the data model: title 200, reporter 100, assignee 100 (the \<open>String(200)\<close> and
  \<open>String(100)\<close> columns of the model class). A length is the number of characters of
  the string.
\<close>

definition validate_create :: "create_body \<Rightarrow> error + IssueCreate" where
  "validate_create body =
     (case (b_title body, b_reporter body) of
        (Some t, Some r) \<Rightarrow>
          if t = [] \<or> 200 < length t \<or> 100 < length r then Inl ValidationError
          else if (case b_status body of None \<Rightarrow> False | Some s \<Rightarrow> parse_status s = None)
            then Inl ValidationError
          else if (case b_priority body of None \<Rightarrow> False | Some p \<Rightarrow> parse_priority p = None)
            then Inl ValidationError
          else if (case b_assignee body of None \<Rightarrow> False | Some a \<Rightarrow> 100 < length a)
            then Inl ValidationError
          else Inr \<lparr>c_title = t, c_description = b_description body,
                 c_status = (case b_status body of None \<Rightarrow> None | Some s \<Rightarrow> parse_status s),
                 c_priority = (case b_priority body of None \<Rightarrow> None | Some p \<Rightarrow> parse_priority p),
                 c_reporter = r, c_assignee = b_assignee body\<rparr>
      | _ \<Rightarrow> Inl ValidationError)"

text \<open>
  The route \<open>POST /issues/\<close>: the framework validates the body into an \<open>IssueCreate\<close> and
  calls \<open>create_issue\<close> only with a valid one.
\<close>

definition post_issue :: "datetime \<Rightarrow> create_body \<Rightarrow> table \<Rightarrow> (error + Issue) \<times> table" where
  "post_issue now body db =
     (case validate_create body of
        Inl e \<Rightarrow> (Inl e, db)
      | Inr issue \<Rightarrow> (Inr (fst (create_issue now issue db)), snd (create_issue now issue db)))"

section \<open>Sequences of requests\<close>

text \<open>
  The requests that write, the table after serving one, and the ids the \<open>Create\<close> requests
  of a sequence return, in order.
\<close>

datatype request =
    Create datetime IssueCreate
  | FullUpdate datetime int IssueCreate
  | PartialUpdate datetime int IssueUpdate
  | Delete int

fun serve :: "request \<Rightarrow> table \<Rightarrow> table" where
  "serve (Create now issue) db = snd (create_issue now issue db)"
| "serve (FullUpdate now issue_id issue_update) db = snd (update_issue now issue_id issue_update db)"
| "serve (PartialUpdate now issue_id issue_update) db =
     snd (partial_update_issue now issue_id issue_update db)"
| "serve (Delete issue_id) db = snd (delete_issue issue_id db)"

fun created_ids :: "request list \<Rightarrow> table \<Rightarrow> int list" where
  "created_ids [] db = []"
| "created_ids (Create now issue # rs) db =
     id' (fst (create_issue now issue db)) # created_ids rs (serve (Create now issue) db)"
| "created_ids (r # rs) db = created_ids rs (serve r db)"

fun is_delete :: "request \<Rightarrow> bool" where
  "is_delete (Delete issue_id) = True"
| "is_delete r = False"

section \<open>Predicates and sample data for the properties\<close>

text \<open>
  The filters \<open>list_issues\<close> applies to a row: \<open>status\<close> and \<open>priority\<close> when given, and
  \<open>assignee\<close> when it is a string that is not empty.
\<close>

definition passes ::
  "IssueStatus option \<Rightarrow> IssuePriority option \<Rightarrow> string option \<Rightarrow> Issue \<Rightarrow> bool" where
  "passes status' priority' assignee' i =
     ((case status' of None \<Rightarrow> True | Some s \<Rightarrow> status i = s)
      \<and> (case priority' of None \<Rightarrow> True | Some p \<Rightarrow> priority i = p)
      \<and> (if truthy assignee' then assignee i = assignee' else True))"

text \<open>
  The specification's reading of the filters: every filter that is provided is an
  exact-match predicate, and a row has to satisfy all of them.
\<close>

definition exact_match ::
  "IssueStatus option \<Rightarrow> IssuePriority option \<Rightarrow> string option \<Rightarrow> Issue \<Rightarrow> bool" where
  "exact_match status' priority' assignee' i =
     ((case status' of None \<Rightarrow> True | Some s \<Rightarrow> status i = s)
      \<and> (case priority' of None \<Rightarrow> True | Some p \<Rightarrow> priority i = p)
      \<and> (case assignee' of None \<Rightarrow> True | Some a \<Rightarrow> assignee i = Some a))"

abbreviation issue_a :: Issue where
  "issue_a \<equiv> \<lparr>id' = 1, title = ''Login fails'', description = None, status = OPEN,
     priority = HIGH, reporter = ''ann'', assignee = Some ''bob'',
     created_at = 5, updated_at = 5\<rparr>"

abbreviation minimal_create :: IssueCreate where
  "minimal_create \<equiv> \<lparr>c_title = ''Crash on save'', c_description = None, c_status = None,
     c_priority = None, c_reporter = ''ann'', c_assignee = None\<rparr>"

abbreviation row :: "int \<Rightarrow> IssueStatus \<Rightarrow> IssuePriority \<Rightarrow> string option \<Rightarrow> Issue" where
  "row n s p a \<equiv> \<lparr>id' = n, title = ''Broken link'', description = None, status = s,
     priority = p, reporter = ''ann'', assignee = a, created_at = 3, updated_at = 3\<rparr>"

abbreviation five_open :: table where
  "five_open \<equiv> [row 1 OPEN LOW None, row 2 OPEN HIGH (Some ''bob''), row 3 CLOSED HIGH None,
     row 4 OPEN MEDIUM None, row 5 OPEN HIGH None, row 6 OPEN LOW (Some ''eve'')]"

text \<open>The ids of the table strictly ascend along its rows.\<close>

definition ascending_ids :: "table \<Rightarrow> bool" where
  "ascending_ids db = sorted_wrt (<) (map id' db)"

text \<open>
  Some value a patch provides differs from the stored one; and a patch that puts
  \<open>None\<close> on a column that is NOT NULL.
\<close>

definition differs :: "IssueUpdate \<Rightarrow> Issue \<Rightarrow> bool" where
  "differs patch i =
     ((case d_title patch of Absent \<Rightarrow> False | Present v \<Rightarrow> v \<noteq> Some (title i))
      \<or> (case d_description patch of Absent \<Rightarrow> False | Present v \<Rightarrow> v \<noteq> description i)
      \<or> (case d_status patch of Absent \<Rightarrow> False | Present v \<Rightarrow> v \<noteq> Some (status i))
      \<or> (case d_priority patch of Absent \<Rightarrow> False | Present v \<Rightarrow> v \<noteq> Some (priority i))
      \<or> (case d_reporter patch of Absent \<Rightarrow> False | Present v \<Rightarrow> v \<noteq> Some (reporter i))
      \<or> (case d_assignee patch of Absent \<Rightarrow> False | Present v \<Rightarrow> v \<noteq> assignee i))"

definition nulls_required :: "IssueUpdate \<Rightarrow> bool" where
  "nulls_required patch =
     (d_title patch = Present None \<or> d_status patch = Present None
      \<or> d_priority patch = Present None \<or> d_reporter patch = Present None)"

text \<open>
  A create body that has to be rejected: title or reporter missing or over its limit, an
  empty title, or a status or priority that is not the value of a member.
\<close>

definition invalid_create :: "create_body \<Rightarrow> bool" where
  "invalid_create body =
     ((case b_title body of None \<Rightarrow> True | Some t \<Rightarrow> t = [] \<or> 200 < length t)
      \<or> (case b_reporter body of None \<Rightarrow> True | Some r \<Rightarrow> 100 < length r)
      \<or> (case b_status body of None \<Rightarrow> False
          | Some s \<Rightarrow> s \<notin> set (map status_value [OPEN, IN_PROGRESS, RESOLVED, CLOSED]))
      \<or> (case b_priority body of None \<Rightarrow> False
          | Some p \<Rightarrow> p \<notin> set (map priority_value [LOW, MEDIUM, HIGH, CRITICAL])))"

abbreviation no_fields :: IssueUpdate where
  "no_fields \<equiv> \<lparr>d_title = Absent, d_description = Absent, d_status = Absent,
     d_priority = Absent, d_reporter = Absent, d_assignee = Absent\<rparr>"

abbreviation status_only :: "IssueStatus \<Rightarrow> IssueUpdate" where
  "status_only s \<equiv> \<lparr>d_title = Absent, d_description = Absent, d_status = Present (Some s),
     d_priority = Absent, d_reporter = Absent, d_assignee = Absent\<rparr>"

abbreviation title_null :: IssueUpdate where
  "title_null \<equiv> \<lparr>d_title = Present None, d_description = Absent, d_status = Absent,
     d_priority = Absent, d_reporter = Absent, d_assignee = Absent\<rparr>"

abbreviation full_payload :: IssueCreate where
  "full_payload \<equiv> \<lparr>c_title = ''Login fails'', c_description = Some ''500 on submit'',
     c_status = Some RESOLVED, c_priority = Some HIGH, c_reporter = ''ann'',
     c_assignee = None\<rparr>"

abbreviation empty_title_body :: create_body where
  "empty_title_body \<equiv> \<lparr>b_title = Some '''', b_description = None, b_status = None,
     b_priority = None, b_reporter = Some ''ann'', b_assignee = None\<rparr>"

abbreviation missing_reporter_body :: create_body where
  "missing_reporter_body \<equiv> \<lparr>b_title = Some ''Crash on save'', b_description = None,
     b_status = None, b_priority = None, b_reporter = None, b_assignee = None\<rparr>"

abbreviation bad_status_body :: create_body where
  "bad_status_body \<equiv> \<lparr>b_title = Some ''Crash on save'', b_description = None,
     b_status = Some ''done'', b_priority = None, b_reporter = Some ''ann'',
     b_assignee = None\<rparr>"

section \<open>Auxiliary facts\<close>

lemma fold_max_lower: "(a::int) \<le> fold max xs a"
  by (induction xs arbitrary: a) (auto intro: order_trans [OF max.cobounded2])

lemma fold_max_upper: "x \<in> set xs \<Longrightarrow> (x::int) \<le> fold max xs a"
proof (induction xs arbitrary: a)
  case Nil
  then show ?case by simp
next
  case (Cons y ys)
  show ?case
  proof (cases "x = y")
    case True
    have "x \<le> max y a" using True by simp
    also have "\<dots> \<le> fold max ys (max y a)" by (rule fold_max_lower)
    finally show ?thesis by simp
  next
    case False
    with Cons show ?thesis by simp
  qed
qed

lemma next_rowid_above: "i \<in> set db \<Longrightarrow> id' i < next_rowid db"
proof (cases db)
  case Nil
  assume "i \<in> set db"
  with Nil show ?thesis by simp
next
  case (Cons j rest)
  assume mem: "i \<in> set db"
  have "id' i \<le> fold max (map id' rest) (id' j)"
  proof (cases "i = j")
    case True
    then show ?thesis by (simp add: fold_max_lower)
  next
    case False
    with mem Cons have "id' i \<in> set (map id' rest)" by auto
    then show ?thesis by (rule fold_max_upper)
  qed
  then show ?thesis by (simp add: next_rowid_def Cons)
qed

lemma first_by_id_SomeD:
  "first_by_id k db = Inr (Some i) \<Longrightarrow> i \<in> set db \<and> id' i = k \<and> sqlite_int k"
  unfolding first_by_id_def by (induction db) (auto split: if_splits)

lemma first_by_id_None_iff:
  "sqlite_int k \<Longrightarrow> first_by_id k db = Inr None \<longleftrightarrow> k \<notin> id' ` set db"
  unfolding first_by_id_def by (induction db) auto

lemma commit_update_ids: "map id' (snd (commit_update now old a db)) = map id' db"
  by (auto simp: commit_update_def Let_def split: option.splits)

lemma find_replace:
  "find (\<lambda>i. id' i = k) db = Some old \<Longrightarrow> id' new = k \<Longrightarrow>
    find (\<lambda>i. id' i = k) (map (\<lambda>i. if id' i = k then new else i) db) = Some new"
  by (induction db) (auto split: if_splits)

lemma find_replace_other:
  "j \<noteq> k \<Longrightarrow> id' new = k \<Longrightarrow>
    find (\<lambda>i. id' i = j) (map (\<lambda>i. if id' i = k then new else i) db)
      = find (\<lambda>i. id' i = j) db"
  by (induction db) auto

lemma first_by_id_replace:
  assumes "first_by_id k db = Inr (Some old)" and "id' new = k"
  shows "first_by_id k (map (\<lambda>i. if id' i = id' old then new else i) db) = Inr (Some new)"
proof -
  from assms(1) have k: "id' old = k" and r: "sqlite_int k"
    using first_by_id_SomeD [of k db old] by simp_all
  from assms(1) r have "find (\<lambda>i. id' i = k) db = Some old"
    by (simp add: first_by_id_def)
  then show ?thesis
    unfolding k using assms(2) r by (simp add: first_by_id_def find_replace)
qed

lemma first_by_id_replace_other:
  assumes "j \<noteq> id' old" and "id' new = id' old"
  shows "first_by_id j (map (\<lambda>i. if id' i = id' old then new else i) db) = first_by_id j db"
  using assms by (simp add: first_by_id_def find_replace_other)

lemma list_query_passes:
  "list_query status' priority' assignee' db = filter (passes status' priority' assignee') db"
  by (cases status'; cases priority'; cases "truthy assignee'")
     (auto simp: list_query_def passes_def Let_def conj_commute intro!: filter_cong)

lemma passes_exact_match:
  "assignee' \<noteq> Some '''' \<Longrightarrow> passes status' priority' assignee' = exact_match status' priority' assignee'"
  by (auto simp: passes_def exact_match_def truthy_def fun_eq_iff split: option.splits)

lemma list_issues_valid:
  assumes "0 \<le> skip" and "skip < 2 ^ 63" and "1 \<le> limit" and "limit \<le> 100"
  shows "list_issues status' priority' assignee' skip limit db =
    Inr \<lparr>total = length (list_query status' priority' assignee' db),
      count = length (take (nat limit) (drop (nat skip) (list_query status' priority' assignee' db))),
      issues = take (nat limit) (drop (nat skip) (list_query status' priority' assignee' db))\<rparr>"
  using assms by (simp add: list_issues_def Let_def sqlite_int_def)

lemma commit_update_cases:
  "commit_update now old a db = (Inr old, db) \<and> a = loaded old
   \<or> (\<exists>t s p r. a \<noteq> loaded old \<and> a_title a = Some t \<and> a_status a = Some s \<and> a_priority a = Some p
        \<and> a_reporter a = Some r
        \<and> commit_update now old a db =
            (Inr (old\<lparr>title := t, description := a_description a, status := s,
                       priority := p, reporter := r, assignee := a_assignee a,
                       updated_at := now\<rparr>),
             map (\<lambda>i. if id' i = id' old
                then old\<lparr>title := t, description := a_description a, status := s,
                       priority := p, reporter := r, assignee := a_assignee a,
                       updated_at := now\<rparr> else i) db))
   \<or> commit_update now old a db = (Inl StoreFault, db)"
  by (auto simp: commit_update_def Let_def split: option.splits)

lemma setattr_same: "setattr e (cur :: 'a) = cur \<longleftrightarrow> (case e of Absent \<Rightarrow> True | Present v \<Rightarrow> v = cur)"
  by (cases e) auto

lemma differs_iff: "differs patch old \<longleftrightarrow> setattr_items patch (loaded old) \<noteq> loaded old"
  by (auto simp: differs_def setattr_items_def loaded_def setattr_same split: entry.splits)

lemma partial_update_found:
  "first_by_id issue_id db = Inr (Some old) \<Longrightarrow>
    partial_update_issue now issue_id patch db =
      commit_update now old (setattr_items patch (loaded old)) db"
  by (simp add: partial_update_issue_def model_dump_exclude_unset_def)

lemma setattr_Absent_loaded:
  "a_title (setattr_items patch (loaded old)) = (case d_title patch of Absent \<Rightarrow> Some (title old) | Present v \<Rightarrow> v)"
  "a_description (setattr_items patch (loaded old)) = (case d_description patch of Absent \<Rightarrow> description old | Present v \<Rightarrow> v)"
  "a_status (setattr_items patch (loaded old)) = (case d_status patch of Absent \<Rightarrow> Some (status old) | Present v \<Rightarrow> v)"
  "a_priority (setattr_items patch (loaded old)) = (case d_priority patch of Absent \<Rightarrow> Some (priority old) | Present v \<Rightarrow> v)"
  "a_reporter (setattr_items patch (loaded old)) = (case d_reporter patch of Absent \<Rightarrow> Some (reporter old) | Present v \<Rightarrow> v)"
  "a_assignee (setattr_items patch (loaded old)) = (case d_assignee patch of Absent \<Rightarrow> assignee old | Present v \<Rightarrow> v)"
  by (simp_all add: setattr_items_def loaded_def split: entry.splits)

lemma first_issue_a: "first_by_id 1 [issue_a] = Inr (Some issue_a)"
  by (simp add: first_by_id_def sqlite_int_def)

lemma serve_update_ids:
  "map id' (serve (FullUpdate now k u) db) = map id' db"
  "map id' (serve (PartialUpdate now k p) db) = map id' db"
  by (simp_all add: update_issue_def partial_update_issue_def commit_update_ids
      split: option.splits sum.splits)

lemma create_issue_id: "id' (fst (create_issue now issue db)) = next_rowid db"
  by (simp add: create_issue_def Let_def)

lemma serve_create_ids:
  "map id' (serve (Create now issue) db) = map id' db @ [next_rowid db]"
  by (simp add: create_issue_def Let_def)

lemma filter_absent_id: "k \<notin> id' ` set db \<Longrightarrow> filter (\<lambda>i. id' i \<noteq> k) db = db"
  by (induction db) auto

lemma serve_delete_ids:
  "map id' (serve (Delete k) db) = map id' db
   \<or> map id' (serve (Delete k) db) = filter (\<lambda>j. j \<noteq> k) (map id' db)"
  by (simp add: delete_issue_def filter_map comp_def split: option.splits sum.splits)

lemma serve_ascending: "ascending_ids db \<Longrightarrow> ascending_ids (serve r db)"
proof (cases r)
  case (Create now issue)
  assume "ascending_ids db"
  then show ?thesis
    unfolding ascending_ids_def Create serve_create_ids
    by (auto simp: sorted_wrt_append next_rowid_above)
next
  case (FullUpdate now k u)
  assume "ascending_ids db"
  then show ?thesis unfolding ascending_ids_def FullUpdate serve_update_ids .
next
  case (PartialUpdate now k p)
  assume "ascending_ids db"
  then show ?thesis unfolding ascending_ids_def PartialUpdate serve_update_ids .
next
  case (Delete k)
  assume "ascending_ids db"
  then have "sorted_wrt (<) (filter (\<lambda>j. j \<noteq> k) (map id' db))"
    unfolding ascending_ids_def by (rule sorted_wrt_filter)
  with \<open>ascending_ids db\<close> show ?thesis
    unfolding ascending_ids_def Delete using serve_delete_ids [of k db] by auto
qed

lemma fold_serve_ascending: "ascending_ids db \<Longrightarrow> ascending_ids (fold serve rs db)"
  by (induction rs arbitrary: db) (simp_all add: serve_ascending)

lemma created_ids_ascending:
  assumes "\<forall>r \<in> set rs. \<not> is_delete r"
  shows "sorted_wrt (<) (created_ids rs db) \<and> (\<forall>x \<in> set (created_ids rs db). \<forall>j \<in> set (map id' db). j < x)"
  using assms
proof (induction rs arbitrary: db)
  case Nil
  then show ?case by simp
next
  case (Cons r rs)
  then have ih: "sorted_wrt (<) (created_ids rs (serve r db))
      \<and> (\<forall>x \<in> set (created_ids rs (serve r db)). \<forall>j \<in> set (map id' (serve r db)). j < x)"
    by simp
  show ?case
  proof (cases r)
    case (Create now issue)
    have "\<forall>j \<in> set (map id' db). j < next_rowid db"
      by (auto simp: next_rowid_above)
    with ih show ?thesis
      unfolding Create serve_create_ids by (simp add: create_issue_id)
  next
    case (FullUpdate now k u)
    with ih show ?thesis by (simp add: serve_update_ids del: serve.simps)
  next
    case (PartialUpdate now k p)
    with ih show ?thesis by (simp add: serve_update_ids del: serve.simps)
  next
    case (Delete k)
    with Cons.prems show ?thesis by simp
  qed
qed

lemma parse_status_None:
  "s \<notin> set (map status_value [OPEN, IN_PROGRESS, RESOLVED, CLOSED]) \<longleftrightarrow> parse_status s = None"
  unfolding parse_status_def find_None_iff by (simp only: set_map image_iff) blast

lemma parse_priority_None:
  "s \<notin> set (map priority_value [LOW, MEDIUM, HIGH, CRITICAL]) \<longleftrightarrow> parse_priority s = None"
  unfolding parse_priority_def find_None_iff by (simp only: set_map image_iff) blast

lemma invalid_create_rejected: "invalid_create body \<Longrightarrow> validate_create body = Inl ValidationError"
  unfolding invalid_create_def validate_create_def parse_status_None parse_priority_None
  by (cases "b_title body"; cases "b_reporter body"; cases "b_status body"; cases "b_priority body")
     auto

lemma accepted_example:
  "post_issue 7 \<lparr>b_title = Some ''Crash on save'', b_description = None, b_status = None,
     b_priority = Some ''high'', b_reporter = Some ''ann'', b_assignee = None\<rparr> []
   = (Inr \<lparr>id' = 1, title = ''Crash on save'', description = None, status = OPEN,
           priority = HIGH, reporter = ''ann'', assignee = None, created_at = 7, updated_at = 7\<rparr>,
      [\<lparr>id' = 1, title = ''Crash on save'', description = None, status = OPEN,
           priority = HIGH, reporter = ''ann'', assignee = None, created_at = 7, updated_at = 7\<rparr>])"
  by (simp add: post_issue_def validate_create_def parse_priority_def create_issue_def
      next_rowid_def Let_def)

section \<open>Lookup of an id that is not stored\<close>

lemma missing_id_in_range_not_found:
  assumes "sqlite_int issue_id" and "issue_id \<notin> id' ` set db"
  shows "get_issue issue_id db = Inl (NotFound issue_id)
    \<and> update_issue now issue_id payload db = (Inl (NotFound issue_id), db)
    \<and> partial_update_issue now issue_id patch db = (Inl (NotFound issue_id), db)
    \<and> delete_issue issue_id db = (Inl (NotFound issue_id), db)"
proof -
  from assms have "first_by_id issue_id db = Inr None"
    by (simp add: first_by_id_None_iff)
  then show ?thesis
    by (simp add: get_issue_def update_issue_def partial_update_issue_def delete_issue_def)
qed

text \<open>
  C7. The id \<open>2 ^ 63 = 9223372036854775808\<close> is the id of no stored issue, yet none of
  \<open>get_issue\<close>, \<open>update_issue\<close>, \<open>partial_update_issue\<close> and \<open>delete_issue\<close> ends in
  \<open>NotFound\<close> for it: the lookup raises \<open>OverflowError\<close> (the table is as it was). For an
  id inside the signed 64-bit range that no stored issue has, all four end in \<open>NotFound\<close>
  (\<open>missing_id_in_range_not_found\<close>).
\<close>

theorem missing_id_out_of_range:
  "9223372036854775808 \<notin> id' ` set [issue_a]
   \<and> get_issue 9223372036854775808 [issue_a] = Inl OverflowError
   \<and> update_issue 9 9223372036854775808 full_payload [issue_a] = (Inl OverflowError, [issue_a])
   \<and> partial_update_issue 9 9223372036854775808 (status_only RESOLVED) [issue_a]
       = (Inl OverflowError, [issue_a])
   \<and> delete_issue 9223372036854775808 [issue_a] = (Inl OverflowError, [issue_a])
   \<and> get_issue 9223372036854775808 [] = Inl OverflowError"
  by (simp add: get_issue_def update_issue_def partial_update_issue_def delete_issue_def
      first_by_id_def sqlite_int_def)

section \<open>Defaults on create\<close>

text \<open>
  C8. A created issue whose payload omits \<open>status\<close> has status \<open>OPEN\<close>, and one whose
  payload omits \<open>priority\<close> has priority \<open>MEDIUM\<close>; the created issue is the row appended
  to the table.
\<close>

theorem create_defaults:
  "(c_status issue = None \<longrightarrow> status (fst (create_issue now issue db)) = OPEN)
   \<and> (c_priority issue = None \<longrightarrow> priority (fst (create_issue now issue db)) = MEDIUM)
   \<and> snd (create_issue now issue db) = db @ [fst (create_issue now issue db)]"
  by (simp add: create_issue_def Let_def)

theorem create_defaults_witness:
  "c_status minimal_create = None \<and> c_priority minimal_create = None
   \<and> status (fst (create_issue 7 minimal_create [])) = OPEN
   \<and> priority (fst (create_issue 7 minimal_create [])) = MEDIUM"
  using create_defaults [of minimal_create 7 "[]"] by simp

section \<open>Listing\<close>

text \<open>
  C10. An assignee filter that is the empty string is not applied: the response is the
  one of the same request without an assignee filter, for every table and every other
  parameter.
\<close>

theorem empty_assignee_filter_ignored:
  "list_issues status' priority' (Some '''') skip limit db
     = list_issues status' priority' None skip limit db"
  by (simp add: list_issues_def list_query_def truthy_def)

text \<open>
  C4, as stated, fails for an assignee filter that is the empty string: no row of
  \<open>five_open\<close> has the assignee \<open>''''\<close>, so no record matches the filters, but \<open>total\<close> is 6,
  the number of all rows.
\<close>

theorem empty_assignee_total_counts_all:
  "list_issues None None (Some '''') 0 2 five_open
     = Inr \<lparr>total = 6, count = 2, issues = [row 1 OPEN LOW None, row 2 OPEN HIGH (Some ''bob'')]\<rparr>
   \<and> length (filter (exact_match None None (Some '''')) five_open) = 0"
proof -
  have "list_query None None (Some '''') five_open = five_open"
    by (simp add: list_query_def truthy_def)
  then show ?thesis
    by (simp add: list_issues_valid exact_match_def)
qed

text \<open>
  C4, amended. For \<open>0 \<le> skip < 2 ^ 63\<close>, \<open>1 \<le> limit \<le> 100\<close> and an assignee filter that is
  absent or not the empty string, \<open>list_issues\<close> answers with \<open>total\<close> the number of rows
  that match every provided filter (pagination ignored), \<open>issues\<close> the page (the matching
  rows after \<open>skip\<close> of them, at most \<open>limit\<close>), and \<open>count\<close> the length of the page. On
  five matching rows, \<open>limit = 2\<close> gives \<open>count = 2\<close>, \<open>total = 5\<close> at \<open>skip = 0\<close> and
  \<open>count = 1\<close> at \<open>skip = 4\<close> (the instance \<open>five_open\<close> below).
\<close>

theorem list_total_count_page:
  assumes "assignee' \<noteq> Some ''''"
    and "0 \<le> skip" and "skip < 2 ^ 63" and "1 \<le> limit" and "limit \<le> 100"
  shows "case list_issues status' priority' assignee' skip limit db of
      Inl e \<Rightarrow> False
    | Inr r \<Rightarrow>
        total r = length (filter (exact_match status' priority' assignee') db)
        \<and> issues r = take (nat limit) (drop (nat skip) (filter (exact_match status' priority' assignee') db))
        \<and> count r = length (issues r)
        \<and> count r = min (nat limit) (total r - nat skip)"
proof -
  have q: "list_query status' priority' assignee' db
      = filter (exact_match status' priority' assignee') db"
    using assms(1) by (simp add: list_query_passes passes_exact_match)
  show ?thesis
    unfolding list_issues_valid [OF assms(2-5)] q by (simp add: min.commute)
qed

theorem list_total_count_page_witness:
  "None \<noteq> Some '''' \<and> (0::int) \<le> 0 \<and> (0::int) < 2 ^ 63 \<and> (1::int) \<le> 2 \<and> (2::int) \<le> 100
   \<and> (0::int) \<le> 4 \<and> (4::int) < 2 ^ 63
   \<and> list_issues (Some OPEN) None None 0 2 five_open
       = Inr \<lparr>total = 5, count = 2, issues = [row 1 OPEN LOW None, row 2 OPEN HIGH (Some ''bob'')]\<rparr>
   \<and> list_issues (Some OPEN) None None 4 2 five_open
       = Inr \<lparr>total = 5, count = 1, issues = [row 6 OPEN LOW (Some ''eve'')]\<rparr>"
proof -
  have matching: "filter (exact_match (Some OPEN) None None) five_open =
     [row 1 OPEN LOW None, row 2 OPEN HIGH (Some ''bob''), row 4 OPEN MEDIUM None,
      row 5 OPEN HIGH None, row 6 OPEN LOW (Some ''eve'')]"
    by (simp add: exact_match_def)
  have first_page: "case list_issues (Some OPEN) None None 0 2 five_open of
      Inl e \<Rightarrow> False
    | Inr r \<Rightarrow>
        total r = length (filter (exact_match (Some OPEN) None None) five_open)
        \<and> issues r = take (nat 2) (drop (nat 0) (filter (exact_match (Some OPEN) None None) five_open))
        \<and> count r = length (issues r)
        \<and> count r = min (nat 2) (total r - nat 0)"
    by (rule list_total_count_page) simp_all
  have last_page: "case list_issues (Some OPEN) None None 4 2 five_open of
      Inl e \<Rightarrow> False
    | Inr r \<Rightarrow>
        total r = length (filter (exact_match (Some OPEN) None None) five_open)
        \<and> issues r = take (nat 2) (drop (nat 4) (filter (exact_match (Some OPEN) None None) five_open))
        \<and> count r = length (issues r)
        \<and> count r = min (nat 2) (total r - nat 4)"
    by (rule list_total_count_page) simp_all
  from first_page have "list_issues (Some OPEN) None None 0 2 five_open
       = Inr \<lparr>total = 5, count = 2, issues = [row 1 OPEN LOW None, row 2 OPEN HIGH (Some ''bob'')]\<rparr>"
    unfolding matching by (cases "list_issues (Some OPEN) None None 0 2 five_open") simp_all
  moreover from last_page have "list_issues (Some OPEN) None None 4 2 five_open
       = Inr \<lparr>total = 5, count = 1, issues = [row 6 OPEN LOW (Some ''eve'')]\<rparr>"
    unfolding matching by (cases "list_issues (Some OPEN) None None 4 2 five_open") simp_all
  ultimately show ?thesis by simp
qed

text \<open>
  C9, as stated, fails for an assignee filter that is the empty string: it is provided but
  not applied, so a row whose assignee is \<open>bob\<close> is returned although it does not satisfy
  the predicate \<open>assignee = ''''\<close>.
\<close>

theorem empty_assignee_not_exact_match:
  "list_issues None None (Some '''') 0 100 [row 1 OPEN LOW (Some ''bob'')]
     = Inr \<lparr>total = 1, count = 1, issues = [row 1 OPEN LOW (Some ''bob'')]\<rparr>
   \<and> \<not> exact_match None None (Some '''') (row 1 OPEN LOW (Some ''bob''))"
  by (simp add: list_issues_valid list_query_def truthy_def exact_match_def)

text \<open>
  C9, amended. When the assignee filter is absent or a string that is not empty (and
  \<open>0 \<le> skip < 2 ^ 63\<close>, \<open>1 \<le> limit \<le> 100\<close>), the rows \<open>list_issues\<close> selects are exactly the rows that satisfy every provided exact-match
  predicate on status, priority and assignee: \<open>total\<close> counts them, the page is their
  \<open>skip\<close>/\<open>limit\<close> window, every returned row satisfies all the predicates, and the page
  holds all of them when \<open>skip = 0\<close> and they are at most \<open>limit\<close>.
\<close>

theorem list_filters_exact_match:
  assumes "assignee' \<noteq> Some ''''"
    and "0 \<le> skip" and "skip < 2 ^ 63" and "1 \<le> limit" and "limit \<le> 100"
  shows "case list_issues status' priority' assignee' skip limit db of
      Inl e \<Rightarrow> False
    | Inr r \<Rightarrow>
        issues r = take (nat limit) (drop (nat skip) (filter (exact_match status' priority' assignee') db))
        \<and> total r = length (filter (exact_match status' priority' assignee') db)
        \<and> (\<forall>i \<in> set (issues r). i \<in> set db \<and> exact_match status' priority' assignee' i)
        \<and> (skip = 0 \<and> total r \<le> nat limit \<longrightarrow>
             set (issues r) = {i \<in> set db. exact_match status' priority' assignee' i})"
proof -
  let ?m = "filter (exact_match status' priority' assignee') db"
  let ?page = "take (nat limit) (drop (nat skip) ?m)"
  have q: "list_query status' priority' assignee' db = ?m"
    using assms(1) by (simp add: list_query_passes passes_exact_match)
  have r: "list_issues status' priority' assignee' skip limit db =
      Inr \<lparr>total = length ?m, count = length ?page, issues = ?page\<rparr>"
    using list_issues_valid [OF assms(2-5)] by (simp only: q)
  have sub: "set ?page \<subseteq> set ?m"
    by (meson set_take_subset set_drop_subset subset_trans)
  have mem: "\<forall>i \<in> set ?page. i \<in> set db \<and> exact_match status' priority' assignee' i"
  proof
    fix i assume "i \<in> set ?page"
    with sub have "i \<in> set ?m" by blast
    then show "i \<in> set db \<and> exact_match status' priority' assignee' i" by simp
  qed
  have whole: "skip = 0 \<and> length ?m \<le> nat limit \<longrightarrow>
      set ?page = {i \<in> set db. exact_match status' priority' assignee' i}"
  proof
    assume a: "skip = 0 \<and> length ?m \<le> nat limit"
    then have "?page = ?m" by simp
    then show "set ?page = {i \<in> set db. exact_match status' priority' assignee' i}"
      by (simp only: set_filter)
  qed
  show ?thesis
    unfolding r using mem whole by (simp only: sum.case IssueListResponse.simps simp_thms)
qed

theorem list_filters_exact_match_witness:
  "Some ''bob'' \<noteq> Some '''' \<and> (0::int) \<le> 0 \<and> (0::int) < 2 ^ 63 \<and> (1::int) \<le> 100
   \<and> (100::int) \<le> 100
   \<and> (case list_issues (Some OPEN) (Some HIGH) None 0 100 five_open of
        Inl e \<Rightarrow> False
      | Inr r \<Rightarrow> issues r = [row 2 OPEN HIGH (Some ''bob''), row 5 OPEN HIGH None] \<and> total r = 2)
   \<and> (case list_issues (Some OPEN) (Some HIGH) (Some ''bob'') 0 100 five_open of
        Inl e \<Rightarrow> False
      | Inr r \<Rightarrow> issues r = [row 2 OPEN HIGH (Some ''bob'')] \<and> total r = 1)"
proof -
  have both: "filter (exact_match (Some OPEN) (Some HIGH) None) five_open =
      [row 2 OPEN HIGH (Some ''bob''), row 5 OPEN HIGH None]"
    by (simp add: exact_match_def)
  have three: "filter (exact_match (Some OPEN) (Some HIGH) (Some ''bob'')) five_open =
      [row 2 OPEN HIGH (Some ''bob'')]"
    by (simp add: exact_match_def)
  have "case list_issues (Some OPEN) (Some HIGH) None 0 100 five_open of
        Inl e \<Rightarrow> False
      | Inr r \<Rightarrow> issues r = [row 2 OPEN HIGH (Some ''bob''), row 5 OPEN HIGH None] \<and> total r = 2"
    using list_filters_exact_match [where assignee' = None and skip = 0 and limit = 100
        and status' = "Some OPEN" and priority' = "Some HIGH" and db = five_open]
    unfolding both by (cases "list_issues (Some OPEN) (Some HIGH) None 0 100 five_open") simp_all
  moreover have "case list_issues (Some OPEN) (Some HIGH) (Some ''bob'') 0 100 five_open of
        Inl e \<Rightarrow> False
      | Inr r \<Rightarrow> issues r = [row 2 OPEN HIGH (Some ''bob'')] \<and> total r = 1"
    using list_filters_exact_match [where assignee' = "Some ''bob''" and skip = 0 and limit = 100
        and status' = "Some OPEN" and priority' = "Some HIGH" and db = five_open]
    unfolding three by (cases "list_issues (Some OPEN) (Some HIGH) (Some ''bob'') 0 100 five_open") simp_all
  ultimately show ?thesis by simp
qed

section \<open>Full update\<close>



section \<open>Partial update\<close>

text \<open>
  C1. For a stored issue and any patch: when \<open>partial_update_issue\<close> fails the table is as
  it was; when it succeeds, every field the patch omits has its old value on the returned
  issue, \<open>id\<close> and \<open>created_at\<close> are the old ones, the returned issue is the stored one, and
  the lookup of every other id is unchanged. With the patch that provides only
  \<open>status = resolved\<close> it succeeds, the status is \<open>RESOLVED\<close>, and the issue differs from
  the old one in \<open>status\<close> and \<open>updated_at\<close> at most.
\<close>

theorem partial_update_frame:
  "\<forall>old. first_by_id issue_id db = Inr (Some old) \<longrightarrow>
     (case partial_update_issue now issue_id patch db of
        (Inl e, db') \<Rightarrow> db' = db
      | (Inr new, db') \<Rightarrow>
          (d_title patch = Absent \<longrightarrow> title new = title old)
          \<and> (d_description patch = Absent \<longrightarrow> description new = description old)
          \<and> (d_status patch = Absent \<longrightarrow> status new = status old)
          \<and> (d_priority patch = Absent \<longrightarrow> priority new = priority old)
          \<and> (d_reporter patch = Absent \<longrightarrow> reporter new = reporter old)
          \<and> (d_assignee patch = Absent \<longrightarrow> assignee new = assignee old)
          \<and> id' new = id' old \<and> created_at new = created_at old
          \<and> first_by_id issue_id db' = Inr (Some new)
          \<and> (\<forall>j. j \<noteq> issue_id \<longrightarrow> first_by_id j db' = first_by_id j db))
     \<and> (case partial_update_issue now issue_id (status_only RESOLVED) db of
          (Inl e, db') \<Rightarrow> False
        | (Inr new, db') \<Rightarrow>
            status new = RESOLVED
            \<and> new\<lparr>status := status old, updated_at := updated_at old\<rparr> = old
            \<and> first_by_id issue_id db' = Inr (Some new))"
proof (intro allI impI conjI)
  fix old
  assume f: "first_by_id issue_id db = Inr (Some old)"
  then have k: "id' old = issue_id"
    using first_by_id_SomeD [of issue_id db old] by simp
  let ?a = "setattr_items patch (loaded old)"
  note p = partial_update_found [OF f, of now patch]
  show "case partial_update_issue now issue_id patch db of
        (Inl e, db') \<Rightarrow> db' = db
      | (Inr new, db') \<Rightarrow>
          (d_title patch = Absent \<longrightarrow> title new = title old)
          \<and> (d_description patch = Absent \<longrightarrow> description new = description old)
          \<and> (d_status patch = Absent \<longrightarrow> status new = status old)
          \<and> (d_priority patch = Absent \<longrightarrow> priority new = priority old)
          \<and> (d_reporter patch = Absent \<longrightarrow> reporter new = reporter old)
          \<and> (d_assignee patch = Absent \<longrightarrow> assignee new = assignee old)
          \<and> id' new = id' old \<and> created_at new = created_at old
          \<and> first_by_id issue_id db' = Inr (Some new)
          \<and> (\<forall>j. j \<noteq> issue_id \<longrightarrow> first_by_id j db' = first_by_id j db)"
    using commit_update_cases [of now old ?a db]
  proof (elim disjE exE conjE)
    assume "commit_update now old ?a db = (Inr old, db)"
    then show ?thesis unfolding p using f by simp
  next
    fix t s pr r
    let ?new = "old\<lparr>title := t, description := a_description ?a, status := s,
        priority := pr, reporter := r, assignee := a_assignee ?a, updated_at := now\<rparr>"
    assume c: "commit_update now old ?a db =
        (Inr ?new, map (\<lambda>i. if id' i = id' old then ?new else i) db)"
      and t: "a_title ?a = Some t" and s: "a_status ?a = Some s"
      and pr: "a_priority ?a = Some pr" and r: "a_reporter ?a = Some r"
    have stored: "first_by_id issue_id (map (\<lambda>i. if id' i = id' old then ?new else i) db) = Inr (Some ?new)"
      using f k by (intro first_by_id_replace) simp_all
    have others: "\<forall>j. j \<noteq> issue_id \<longrightarrow>
        first_by_id j (map (\<lambda>i. if id' i = id' old then ?new else i) db) = first_by_id j db"
      using k by (intro allI impI first_by_id_replace_other) simp_all
    have fields: "(d_title patch = Absent \<longrightarrow> t = title old)
        \<and> (d_description patch = Absent \<longrightarrow> a_description ?a = description old)
        \<and> (d_status patch = Absent \<longrightarrow> s = status old)
        \<and> (d_priority patch = Absent \<longrightarrow> pr = priority old)
        \<and> (d_reporter patch = Absent \<longrightarrow> r = reporter old)
        \<and> (d_assignee patch = Absent \<longrightarrow> a_assignee ?a = assignee old)"
      using t s pr r by (auto simp: setattr_Absent_loaded)
    show ?thesis
      unfolding p c using stored others fields by simp
  next
    assume "commit_update now old ?a db = (Inl StoreFault, db)"
    then show ?thesis unfolding p by simp
  qed
  let ?b = "\<lparr>a_title = Some (title old), a_description = description old,
      a_status = Some RESOLVED, a_priority = Some (priority old),
      a_reporter = Some (reporter old), a_assignee = assignee old\<rparr>"
  have b: "setattr_items (status_only RESOLVED) (loaded old) = ?b"
    by (simp add: setattr_items_def loaded_def)
  have q: "partial_update_issue now issue_id (status_only RESOLVED) db = commit_update now old ?b db"
    using partial_update_found [OF f, of now "status_only RESOLVED"] by (simp only: b)
  show "case partial_update_issue now issue_id (status_only RESOLVED) db of
          (Inl e, db') \<Rightarrow> False
        | (Inr new, db') \<Rightarrow>
            status new = RESOLVED
            \<and> new\<lparr>status := status old, updated_at := updated_at old\<rparr> = old
            \<and> first_by_id issue_id db' = Inr (Some new)"
  proof (cases "status old = RESOLVED")
    case True
    then have "?b = loaded old" by (simp add: loaded_def)
    then have "commit_update now old ?b db = (Inr old, db)"
      by (simp add: commit_update_def)
    then show ?thesis unfolding q using f True by simp
  next
    case False
    let ?new = "old\<lparr>status := RESOLVED, updated_at := now\<rparr>"
    from False have ne: "?b \<noteq> loaded old"
      by (simp add: loaded_def)
    have c: "commit_update now old ?b db =
        (Inr ?new, map (\<lambda>i. if id' i = id' old then ?new else i) db)"
      using ne by (simp add: commit_update_def Let_def)
    have stored: "first_by_id issue_id (map (\<lambda>i. if id' i = id' old then ?new else i) db) = Inr (Some ?new)"
      using f k by (intro first_by_id_replace) simp_all
    show ?thesis unfolding q c using stored by simp
  qed
qed

theorem partial_update_frame_witness:
  "first_by_id 1 [issue_a] = Inr (Some issue_a)
   \<and> partial_update_issue 9 1 (status_only RESOLVED) [issue_a]
       = (Inr (issue_a\<lparr>status := RESOLVED, updated_at := 9\<rparr>),
          [issue_a\<lparr>status := RESOLVED, updated_at := 9\<rparr>])
   \<and> d_title (status_only RESOLVED) = Absent
   \<and> title (issue_a\<lparr>status := RESOLVED, updated_at := 9\<rparr>) = title issue_a"
proof -
  have run: "partial_update_issue 9 1 (status_only RESOLVED) [issue_a]
       = (Inr (issue_a\<lparr>status := RESOLVED, updated_at := 9\<rparr>),
          [issue_a\<lparr>status := RESOLVED, updated_at := 9\<rparr>])"
    by (simp add: partial_update_found [OF first_issue_a] setattr_items_def loaded_def
        commit_update_def Let_def)
  show ?thesis
    using partial_update_frame [where issue_id = 1 and db = "[issue_a]" and now = 9 and patch = "status_only RESOLVED"] run first_issue_a
    by simp
qed

text \<open>
  C2, as stated, fails: with the clock at 9, a patch whose only field is the status the
  issue already has, and a patch with no field, both succeed and return the issue with
  its old \<open>updated_at = 5\<close>: no UPDATE is emitted, so \<open>onupdate\<close> does not run. A patch
  that applies \<open>null\<close> to the title does not refresh \<open>updated_at\<close> either: the UPDATE
  fails on the NOT NULL column and the table is as it was.
\<close>

theorem unchanged_patch_not_refreshed:
  "partial_update_issue 9 1 (status_only OPEN) [issue_a] = (Inr issue_a, [issue_a])
   \<and> partial_update_issue 9 1 no_fields [issue_a] = (Inr issue_a, [issue_a])
   \<and> partial_update_issue 9 1 title_null [issue_a] = (Inl StoreFault, [issue_a])
   \<and> updated_at issue_a = 5"
  by (simp add: partial_update_found [OF first_issue_a] setattr_items_def loaded_def
      commit_update_def)

text \<open>
  C2, amended. For a stored issue: when some provided value differs from the stored one
  and no provided value is \<open>null\<close> for \<open>title\<close>, \<open>status\<close>, \<open>priority\<close> or \<open>reporter\<close> (the
  NOT NULL columns), \<open>partial_update_issue\<close> succeeds and the stored issue has
  \<open>updated_at = now\<close>; when no provided value differs, and in particular when the patch
  provides no field, it succeeds and returns the issue as it was, \<open>updated_at\<close> included,
  and the table is unchanged.
\<close>

theorem partial_update_refresh:
  "\<forall>old. first_by_id issue_id db = Inr (Some old) \<longrightarrow>
     (differs patch old \<and> \<not> nulls_required patch \<longrightarrow>
        (case partial_update_issue now issue_id patch db of
           (Inl e, db') \<Rightarrow> False
         | (Inr new, db') \<Rightarrow> updated_at new = now \<and> first_by_id issue_id db' = Inr (Some new)))
     \<and> (\<not> differs patch old \<longrightarrow> partial_update_issue now issue_id patch db = (Inr old, db))
     \<and> partial_update_issue now issue_id no_fields db = (Inr old, db)"
proof (intro allI impI conjI)
  fix old
  assume f: "first_by_id issue_id db = Inr (Some old)"
  then have k: "id' old = issue_id"
    using first_by_id_SomeD [of issue_id db old] by simp
  let ?a = "setattr_items patch (loaded old)"
  note p = partial_update_found [OF f, of now patch]
  {
    assume "\<not> differs patch old"
    then have "?a = loaded old" by (simp add: differs_iff)
    then show "partial_update_issue now issue_id patch db = (Inr old, db)"
      unfolding p by (simp add: commit_update_def)
  }
  {
    have "setattr_items no_fields (loaded old) = loaded old"
      by (simp add: setattr_items_def)
    then show "partial_update_issue now issue_id no_fields db = (Inr old, db)"
      unfolding partial_update_found [OF f] by (simp add: commit_update_def)
  }
  {
    assume d: "differs patch old \<and> \<not> nulls_required patch"
    then have ne: "?a \<noteq> loaded old" by (simp add: differs_iff)
    from d have "\<exists>t. a_title ?a = Some t"
      by (cases "d_title patch") (auto simp: nulls_required_def setattr_Absent_loaded)
    moreover from d have "\<exists>s. a_status ?a = Some s"
      by (cases "d_status patch") (auto simp: nulls_required_def setattr_Absent_loaded)
    moreover from d have "\<exists>pr. a_priority ?a = Some pr"
      by (cases "d_priority patch") (auto simp: nulls_required_def setattr_Absent_loaded)
    moreover from d have "\<exists>r. a_reporter ?a = Some r"
      by (cases "d_reporter patch") (auto simp: nulls_required_def setattr_Absent_loaded)
    ultimately obtain t s pr r where
      v: "a_title ?a = Some t" "a_status ?a = Some s" "a_priority ?a = Some pr" "a_reporter ?a = Some r"
      by blast
    let ?new = "old\<lparr>title := t, description := a_description ?a, status := s,
        priority := pr, reporter := r, assignee := a_assignee ?a, updated_at := now\<rparr>"
    have c: "commit_update now old ?a db =
        (Inr ?new, map (\<lambda>i. if id' i = id' old then ?new else i) db)"
      using ne v by (simp add: commit_update_def Let_def)
    have stored: "first_by_id issue_id (map (\<lambda>i. if id' i = id' old then ?new else i) db) = Inr (Some ?new)"
      using f k by (intro first_by_id_replace) simp_all
    show "case partial_update_issue now issue_id patch db of
           (Inl e, db') \<Rightarrow> False
         | (Inr new, db') \<Rightarrow> updated_at new = now \<and> first_by_id issue_id db' = Inr (Some new)"
      unfolding p c using stored by simp
  }
qed

theorem partial_update_refresh_witness:
  "first_by_id 1 [issue_a] = Inr (Some issue_a)
   \<and> differs (status_only CLOSED) issue_a \<and> \<not> nulls_required (status_only CLOSED)
   \<and> updated_at (issue_a\<lparr>status := CLOSED, updated_at := 9\<rparr>) = 9
   \<and> partial_update_issue 9 1 (status_only CLOSED) [issue_a]
       = (Inr (issue_a\<lparr>status := CLOSED, updated_at := 9\<rparr>),
          [issue_a\<lparr>status := CLOSED, updated_at := 9\<rparr>])
   \<and> \<not> differs (status_only OPEN) issue_a
   \<and> partial_update_issue 9 1 (status_only OPEN) [issue_a] = (Inr issue_a, [issue_a])"
proof -
  have run: "partial_update_issue 9 1 (status_only CLOSED) [issue_a]
       = (Inr (issue_a\<lparr>status := CLOSED, updated_at := 9\<rparr>),
          [issue_a\<lparr>status := CLOSED, updated_at := 9\<rparr>])"
    by (simp add: partial_update_found [OF first_issue_a] setattr_items_def loaded_def
        commit_update_def Let_def)
  have hyps: "differs (status_only CLOSED) issue_a" "\<not> nulls_required (status_only CLOSED)"
      "\<not> differs (status_only OPEN) issue_a"
    by (simp_all add: differs_def nulls_required_def)
  show ?thesis
    using partial_update_refresh [where issue_id = 1 and db = "[issue_a]" and now = 9 and patch = "status_only OPEN"]
      partial_update_refresh [where issue_id = 1 and db = "[issue_a]" and now = 9 and patch = "status_only CLOSED"] run hyps first_issue_a
    by simp
qed

section \<open>Ids\<close>

text \<open>
  What the id allocation gives: after every sequence of requests on the empty table the
  stored ids are pairwise distinct, the id \<open>create_issue\<close> returns is greater than every
  stored id, no update changes the id column, and in a sequence without \<open>Delete\<close> the ids
  returned by the creates strictly increase.
\<close>

lemma stored_ids_distinct_below_next:
  "distinct (map id' (fold serve rs []))
   \<and> (\<forall>i \<in> set (fold serve rs []). id' i < id' (fst (create_issue now issue (fold serve rs []))))
   \<and> map id' (snd (update_issue now issue_id payload (fold serve rs []))) = map id' (fold serve rs [])
   \<and> map id' (snd (partial_update_issue now issue_id patch (fold serve rs [])))
       = map id' (fold serve rs [])
   \<and> ((\<forall>r \<in> set rs. \<not> is_delete r) \<longrightarrow>
        sorted_wrt (<) (created_ids rs []) \<and> distinct (created_ids rs []))"
proof (intro conjI impI)
  have "ascending_ids (fold serve rs [])"
    by (rule fold_serve_ascending) (simp add: ascending_ids_def)
  then show "distinct (map id' (fold serve rs []))"
    unfolding ascending_ids_def by (simp add: strict_sorted_iff)
  show "\<forall>i \<in> set (fold serve rs []). id' i < id' (fst (create_issue now issue (fold serve rs [])))"
    by (simp add: create_issue_id next_rowid_above)
  show "map id' (snd (update_issue now issue_id payload (fold serve rs []))) = map id' (fold serve rs [])"
    using serve_update_ids(1) [of now issue_id payload "fold serve rs []"] by simp
  show "map id' (snd (partial_update_issue now issue_id patch (fold serve rs [])))
       = map id' (fold serve rs [])"
    using serve_update_ids(2) [of now issue_id patch "fold serve rs []"] by simp
next
  assume nd: "\<forall>r \<in> set rs. \<not> is_delete r"
  then show s: "sorted_wrt (<) (created_ids rs [])"
    using created_ids_ascending [of rs "[]"] by simp
  then show "distinct (created_ids rs [])"
    by (simp add: strict_sorted_iff)
qed

text \<open>
  C5. An id returned by a create can have been returned by an earlier create: create,
  delete the issue with id 1, create again; both creates return id 1. The column asks
  for \<open>autoincrement=True\<close> ("sequential IDs"), but the table is created without
  AUTOINCREMENT, so the rowid of a deleted last row is assigned again.
\<close>

theorem reused_id_after_delete:
  "created_ids [Create 1 minimal_create, Delete 1, Create 2 minimal_create] [] = [1, 1]
   \<and> \<not> distinct (created_ids [Create 1 minimal_create, Delete 1, Create 2 minimal_create] [])"
  by (simp add: create_issue_def delete_issue_def first_by_id_def sqlite_int_def next_rowid_def Let_def)

section \<open>Rejected create bodies\<close>

text \<open>
  C6. A create body with title or reporter missing or over its limit (200, 100), an
  empty title, or a status or priority outside its enumeration ends in
  \<open>ValidationError\<close>; \<open>create_issue\<close> is not called, the table is as it was, and every
  listing of it is unchanged.
\<close>

theorem invalid_create_persists_nothing:
  assumes "invalid_create body"
  shows "post_issue now body db = (Inl ValidationError, db)
    \<and> list_issues status' priority' assignee' skip limit (snd (post_issue now body db))
        = list_issues status' priority' assignee' skip limit db"
  using invalid_create_rejected [OF assms] by (simp add: post_issue_def)

theorem invalid_create_persists_nothing_witness:
  "invalid_create empty_title_body \<and> invalid_create missing_reporter_body
   \<and> invalid_create bad_status_body
   \<and> post_issue 7 empty_title_body [issue_a] = (Inl ValidationError, [issue_a])
   \<and> post_issue 7 missing_reporter_body [issue_a] = (Inl ValidationError, [issue_a])
   \<and> post_issue 7 bad_status_body [issue_a] = (Inl ValidationError, [issue_a])"
proof -
  have h: "invalid_create empty_title_body" "invalid_create missing_reporter_body"
      "invalid_create bad_status_body"
    by (simp_all add: invalid_create_def)
  show ?thesis
    using invalid_create_persists_nothing [OF h(1), of 7 "[issue_a]"]
      invalid_create_persists_nothing [OF h(2), of 7 "[issue_a]"]
      invalid_create_persists_nothing [OF h(3), of 7 "[issue_a]"] h
    by simp
qed

end
